theory Spec2Isabelle
  imports Main
begin

section \<open>The storage: a two-alternative variant\<close>

text \<open>
  The class \<^verbatim>\<open>top1::result<Ok, Err>\<close> of \<^verbatim>\<open>src/util/result.hpp\<close> has one field,
  \<^verbatim>\<open>std::variant<Ok, Err> data\<close>. The variant is a datatype with one constructor for
  each alternative. \<^verbatim>\<open>std::get<T>\<close> throws \<^verbatim>\<open>std::bad_variant_access\<close> when the
  variant holds the other alternative: in the model it returns a sum, \<open>Inl\<close> carrying
  the exception.
\<close>

datatype ('a, 'b) variant = Alt0 'a | Alt1 'b

datatype exn = bad_variant_access

fun holds_alternative_Ok :: "('ok, 'err) variant \<Rightarrow> bool" where
  "holds_alternative_Ok (Alt0 x) = True"
| "holds_alternative_Ok (Alt1 e) = False"

fun holds_alternative_Err :: "('ok, 'err) variant \<Rightarrow> bool" where
  "holds_alternative_Err (Alt0 x) = False"
| "holds_alternative_Err (Alt1 e) = True"

fun get_Ok :: "('ok, 'err) variant \<Rightarrow> exn + 'ok" where
  "get_Ok (Alt0 x) = Inr x"
| "get_Ok (Alt1 e) = Inl bad_variant_access"

fun get_Err :: "('ok, 'err) variant \<Rightarrow> exn + 'err" where
  "get_Err (Alt0 x) = Inl bad_variant_access"
| "get_Err (Alt1 e) = Inr e"

section \<open>The class result\<close>

datatype ('ok, 'err) result = Result (data: "('ok, 'err) variant")

text \<open>
  The constructors \<^verbatim>\<open>result(const Ok&)\<close>, \<^verbatim>\<open>result(Ok&&)\<close> initialise \<^verbatim>\<open>data\<close> with the
  Ok alternative, \<^verbatim>\<open>result(const Err&)\<close>, \<^verbatim>\<open>result(Err&&)\<close> with the Err alternative.
  Which one a call selects is decided by the static type of the argument.
\<close>

definition Ok :: "'ok \<Rightarrow> ('ok, 'err) result" where
  "Ok x = Result (Alt0 x)"

definition Err :: "'err \<Rightarrow> ('ok, 'err) result" where
  "Err e = Result (Alt1 e)"

subsection \<open>Callables and their effects\<close>

text \<open>
  A callable handed to a combinator may have side effects (the call counter of a test, for
  one). It is a function from its arguments and the state before the call to its return
  value and the state after it. The parameter pack \<^verbatim>\<open>Args&&... args\<close> is one value of
  a type \<open>'args\<close> (a tuple, or a list for a callable that accepts packs of several
  lengths), and \<^verbatim>\<open>std::invoke(f, args...)\<close> is \<open>f args s\<close>. A combinator that takes a
  callable returns the value or the exception it ends with, and the state it ends in.
  \<open>returned\<close> is a call that came back with a value; \<open>got\<close> sequences a \<^verbatim>\<open>std::get\<close>
  with the rest of the statement, an exception ending it.
\<close>

definition returned :: "'r \<times> 's \<Rightarrow> (exn + 'r) \<times> 's" where
  "returned p = (Inr (fst p), snd p)"

definition got :: "exn + 'a \<Rightarrow> ('a \<Rightarrow> exn + 'b) \<Rightarrow> exn + 'b" where
  "got g k = (case g of Inl x \<Rightarrow> Inl x | Inr a \<Rightarrow> k a)"

definition got_in :: "exn + 'a \<Rightarrow> 's \<Rightarrow> ('a \<Rightarrow> (exn + 'b) \<times> 's) \<Rightarrow> (exn + 'b) \<times> 's" where
  "got_in g s k = (case g of Inl x \<Rightarrow> (Inl x, s) | Inr a \<Rightarrow> k a)"

subsection \<open>Inspection\<close>

definition is_ok :: "('ok, 'err) result \<Rightarrow> bool" where
  "is_ok r = holds_alternative_Ok (data r)"

definition is_err :: "('ok, 'err) result \<Rightarrow> bool" where
  "is_err r = holds_alternative_Err (data r)"

definition ok :: "('ok, 'err) result \<Rightarrow> exn + 'ok option" where
  "ok r = (if is_ok r then got (get_Ok (data r)) (\<lambda>x. Inr (Some x)) else Inr None)"

definition err :: "('ok, 'err) result \<Rightarrow> exn + 'err option" where
  "err r = (if is_err r then got (get_Err (data r)) (\<lambda>e. Inr (Some e)) else Inr None)"

subsection \<open>Transformation\<close>

text \<open>
  \<^verbatim>\<open>map(F&& op)\<close> is declared to return \<^verbatim>\<open>result<U, Err>\<close>, \<^verbatim>\<open>U\<close> the return type of
  \<^verbatim>\<open>op\<close>. Its Ok branch returns \<^verbatim>\<open>std::invoke(op, std::get<Ok>(data))\<close>, a \<^verbatim>\<open>U\<close>, which
  the constructor from an Ok payload turns into the returned result. Its other branch is
  \<^verbatim>\<open>return *this;\<close>, an expression of type \<^verbatim>\<open>result<Ok, Err>\<close>, and the class has no
  constructor from a result over other types. So the member function is well-formed at
  two kinds of \<^verbatim>\<open>U\<close> only:
  \<^item> \<^verbatim>\<open>U = Ok\<close>: \<^verbatim>\<open>return *this;\<close> copies the receiver. This is \<open>map_res\<close>.
  \<^item> \<^verbatim>\<open>U = result<Ok, Err>\<close> (\<^verbatim>\<open>op\<close> itself returns a result): the value returned has
    type \<^verbatim>\<open>result<result<Ok, Err>, Err>\<close>, and \<^verbatim>\<open>*this\<close> is converted to it by the one
    constructor that accepts a \<^verbatim>\<open>result<Ok, Err>\<close>, \<^verbatim>\<open>result(const Ok&)\<close> of line 17 at
    \<^verbatim>\<open>Ok = result<Ok, Err>\<close>: the receiver is stored as the Ok payload. This is
    \<open>map_res_nested\<close>.
  \<^verbatim>\<open>map_err\<close> is the mirror image; it is modelled where its \<^verbatim>\<open>return *this;\<close> is a copy.
\<close>

definition map_res ::
  "('ok, 'err) result \<Rightarrow> ('ok \<Rightarrow> 's \<Rightarrow> 'ok \<times> 's) \<Rightarrow> 's \<Rightarrow> (exn + ('ok, 'err) result) \<times> 's" where
  "map_res r op s =
     (if is_ok r
      then got_in (get_Ok (data r)) s (\<lambda>x. case op x s of (y, s') \<Rightarrow> (Inr (Ok y), s'))
      else (Inr r, s))"

definition map_res_nested ::
  "('ok, 'err) result \<Rightarrow> ('ok \<Rightarrow> 's \<Rightarrow> ('ok, 'err) result \<times> 's) \<Rightarrow> 's
     \<Rightarrow> (exn + (('ok, 'err) result, 'err) result) \<times> 's" where
  "map_res_nested r op s =
     (if is_ok r
      then got_in (get_Ok (data r)) s (\<lambda>x. case op x s of (y, s') \<Rightarrow> (Inr (Ok y), s'))
      else (Inr (Ok r), s))"

definition map_err ::
  "('ok, 'err) result \<Rightarrow> ('err \<Rightarrow> 's \<Rightarrow> 'err \<times> 's) \<Rightarrow> 's \<Rightarrow> (exn + ('ok, 'err) result) \<times> 's" where
  "map_err r op s =
     (if is_err r
      then got_in (get_Err (data r)) s (\<lambda>e. case op e s of (d, s') \<Rightarrow> (Inr (Err d), s'))
      else (Inr r, s))"

subsection \<open>Composition\<close>

text \<open>
  \<^verbatim>\<open>operator&&\<close> takes a \<^verbatim>\<open>result<Ok2, Err>\<close> and returns one; its Err branch returns
  \<^verbatim>\<open>std::get<Err>(data)\<close>, which the constructor from an Err payload turns into the
  returned result. \<^verbatim>\<open>operator||\<close> returns \<^verbatim>\<open>std::get<Ok>(data)\<close> in its Ok branch, a value
  of type \<^verbatim>\<open>Ok\<close> from which the \<^verbatim>\<open>result<Ok2, Err>\<close> is constructed: it is modelled at
  \<^verbatim>\<open>Ok2 = Ok\<close>, where that is the constructor from an Ok payload.

  \<^verbatim>\<open>and_then\<close> and \<^verbatim>\<open>or_else\<close> return what \<^verbatim>\<open>std::invoke(f, args...)\<close> returns. They are
  modelled for an \<^verbatim>\<open>f\<close> that returns a result able to hold the receiver's payload as it
  is: a \<^verbatim>\<open>result<Ok2, Err>\<close> for \<^verbatim>\<open>and_then\<close>, a \<^verbatim>\<open>result<Ok, Err2>\<close> for \<^verbatim>\<open>or_else\<close>.
  Neither passes the receiver's payload to \<^verbatim>\<open>f\<close>: the arguments of the call are
  \<^verbatim>\<open>args...\<close> alone.
\<close>

definition operator_and ::
  "('ok, 'err) result \<Rightarrow> ('ok2, 'err) result \<Rightarrow> exn + ('ok2, 'err) result" where
  "operator_and a r =
     (if is_ok a then Inr r else got (get_Err (data a)) (\<lambda>e. Inr (Err e)))"

definition and_then ::
  "('ok, 'err) result \<Rightarrow> ('args \<Rightarrow> 's \<Rightarrow> ('ok2, 'err) result \<times> 's) \<Rightarrow> 'args \<Rightarrow> 's
     \<Rightarrow> (exn + ('ok2, 'err) result) \<times> 's" where
  "and_then r f args s =
     (if is_ok r then returned (f args s)
      else got_in (get_Err (data r)) s (\<lambda>e. (Inr (Err e), s)))"

definition operator_or ::
  "('ok, 'err) result \<Rightarrow> ('ok, 'err) result \<Rightarrow> exn + ('ok, 'err) result" where
  "operator_or a r =
     (if is_err a then Inr r else got (get_Ok (data a)) (\<lambda>x. Inr (Ok x)))"

definition or_else ::
  "('ok, 'err) result \<Rightarrow> ('args \<Rightarrow> 's \<Rightarrow> ('ok, 'err2) result \<times> 's) \<Rightarrow> 'args \<Rightarrow> 's
     \<Rightarrow> (exn + ('ok, 'err2) result) \<times> 's" where
  "or_else r f args s =
     (if is_err r then returned (f args s)
      else got_in (get_Ok (data r)) s (\<lambda>x. (Inr (Ok x), s)))"

subsection \<open>Extraction with a fallback\<close>

text \<open>
  \<^verbatim>\<open>get_or\<close> has two overloads. The one taking \<^verbatim>\<open>const Ok&\<close> (lines 127-133) returns
  an \<^verbatim>\<open>Ok\<close> by value: this is \<open>get_or\<close>, and it is the one a call selects when the
  default is an lvalue. The one taking \<^verbatim>\<open>Ok&&\<close> (lines 137-143), which a call with an
  rvalue default such as \<^verbatim>\<open>r.get_or(42)\<close> selects, is declared to return \<^verbatim>\<open>Ok&&\<close> and
  its Ok branch returns \<^verbatim>\<open>std::get<Ok>(data)\<close>, in a const member function an lvalue of
  type \<^verbatim>\<open>const Ok\<close>, to which an \<^verbatim>\<open>Ok&&\<close> cannot bind: the overload is ill-formed at
  every \<^verbatim>\<open>Ok\<close> as soon as it is instantiated. It has no behaviour to model, and there is
  no definition for it.
\<close>

definition get_or :: "('ok, 'err) result \<Rightarrow> 'ok \<Rightarrow> exn + 'ok" where
  "get_or r def = (if is_ok r then got (get_Ok (data r)) Inr else Inr def)"

definition get_or_else ::
  "('ok, 'err) result \<Rightarrow> ('args \<Rightarrow> 's \<Rightarrow> 'ok \<times> 's) \<Rightarrow> 'args \<Rightarrow> 's \<Rightarrow> (exn + 'ok) \<times> 's" where
  "get_or_else r f args s =
     (if is_ok r then got_in (get_Ok (data r)) s (\<lambda>x. (Inr x, s))
      else returned (f args s))"

subsection \<open>Calls in sequence, and the callables of the scenarios\<close>

text \<open>
  \<open>chain\<close> is a call on the value an earlier call returned, as in
  \<^verbatim>\<open>r.map(f).map(g)\<close>; \<open>compose g f\<close> is the callable \<^verbatim>\<open>x -> g(f(x))\<close> and \<open>identity\<close>
  the callable \<^verbatim>\<open>x -> x\<close>.
\<close>

definition chain :: "(exn + 'a) \<times> 's \<Rightarrow> ('a \<Rightarrow> 's \<Rightarrow> (exn + 'b) \<times> 's) \<Rightarrow> (exn + 'b) \<times> 's" where
  "chain c k = (case c of (Inl x, s) \<Rightarrow> (Inl x, s) | (Inr a, s) \<Rightarrow> k a s)"

definition compose :: "('b \<Rightarrow> 's \<Rightarrow> 'c \<times> 's) \<Rightarrow> ('a \<Rightarrow> 's \<Rightarrow> 'b \<times> 's) \<Rightarrow> 'a \<Rightarrow> 's \<Rightarrow> 'c \<times> 's" where
  "compose g f x s = (case f x s of (y, s') \<Rightarrow> g y s')"

definition identity :: "'a \<Rightarrow> 's \<Rightarrow> 'a \<times> 's" where
  "identity x s = (x, s)"

text \<open>
  The callables of the scenarios count their calls: the state is the counter.
  \<open>inc_if_positive\<close> is \<^verbatim>\<open>x => x>0 ? Ok(x+1) : Err("neg")\<close> and \<open>text_length\<close> is a recovery
  \<^verbatim>\<open>e => Ok(length of e)\<close>; each takes the pack of its arguments as a list, and its
  parameter has a default (\<open>0\<close>, the empty text) for the call with an empty pack.
  \<open>twice\<close> is \<^verbatim>\<open>x => x*2\<close>, \<open>successor\<close> is \<^verbatim>\<open>x => x+1\<close>, and \<open>twice_ok\<close> is
  \<^verbatim>\<open>x => Ok(x*2)\<close>, a doubling that returns a result.
\<close>

definition inc_if_positive :: "int list \<Rightarrow> nat \<Rightarrow> (int, string) result \<times> nat" where
  "inc_if_positive args n =
     (let x = (case args of [] \<Rightarrow> 0 | a # as \<Rightarrow> a)
      in (if x > 0 then Ok (x + 1) else Err ''neg'', Suc n))"

definition text_length :: "string list \<Rightarrow> nat \<Rightarrow> (int, string) result \<times> nat" where
  "text_length args n =
     (let e = (case args of [] \<Rightarrow> [] | a # as \<Rightarrow> a)
      in (Ok (int (length e)), Suc n))"

definition twice :: "int \<Rightarrow> nat \<Rightarrow> int \<times> nat" where
  "twice x n = (x * 2, Suc n)"

definition successor :: "int \<Rightarrow> nat \<Rightarrow> int \<times> nat" where
  "successor x n = (x + 1, Suc n)"

definition twice_ok :: "int \<Rightarrow> nat \<Rightarrow> (int, string) result \<times> nat" where
  "twice_ok x n = (Ok (x * 2), Suc n)"


section \<open>Properties\<close>

lemma result_cases: "(\<exists>x. r = Ok x) \<or> (\<exists>e. r = Err e)"
proof (cases r)
  case (Result v)
  then show ?thesis by (cases v) (simp_all add: Ok_def Err_def)
qed

lemma is_ok_simps [simp]: "is_ok (Ok x)" "\<not> is_ok (Err e)"
  by (simp_all add: is_ok_def Ok_def Err_def)

lemma is_err_simps [simp]: "\<not> is_err (Ok x)" "is_err (Err e)"
  by (simp_all add: is_err_def Ok_def Err_def)

lemma data_simps [simp]: "data (Ok x) = Alt0 x" "data (Err e) = Alt1 e"
  by (simp_all add: Ok_def Err_def)

lemma Ok_neq_Err [simp]: "Ok x \<noteq> Err e" "Err e \<noteq> Ok x"
  by (simp_all add: Ok_def Err_def)

lemma Ok_inject [simp]: "(Ok x = Ok y) = (x = y)"
  by (simp add: Ok_def)

lemma Err_inject [simp]: "(Err e = Err d) = (e = d)"
  by (simp add: Err_def)

lemma got_simps [simp]: "got (Inr a) k = k a" "got (Inl x) k = Inl x"
  by (simp_all add: got_def)

lemma got_in_simps [simp]: "got_in (Inr a) s k' = k' a" "got_in (Inl x) s k' = (Inl x, s)"
  by (simp_all add: got_in_def)

text \<open>
  C7. For every result \<open>r\<close> exactly one of \<open>is_ok r\<close> and \<open>is_err r\<close> is true; \<open>ok r\<close>
  is a present optional exactly when \<open>is_ok r\<close>, it then carries the Ok payload, and it
  is the empty optional otherwise; \<open>err r\<close> is a present optional exactly when
  \<open>is_err r\<close>, it then carries the Err payload, and it is the empty optional otherwise.
\<close>

theorem inspection_consistent:
  "is_ok r \<noteq> is_err r
   \<and> ((\<exists>x. ok r = Inr (Some x)) = is_ok r)
   \<and> ((ok r = Inr None) = (\<not> is_ok r))
   \<and> ((\<exists>e. err r = Inr (Some e)) = is_err r)
   \<and> ((err r = Inr None) = (\<not> is_err r))
   \<and> ok (Ok x :: ('ok, 'err) result) = Inr (Some x)
   \<and> ok (Err e :: ('ok, 'err) result) = Inr None
   \<and> err (Err e :: ('ok, 'err) result) = Inr (Some e)
   \<and> err (Ok x :: ('ok, 'err) result) = Inr None"
  using result_cases [of r] by (auto simp add: ok_def err_def)

lemma returned_pair [simp]: "returned (v, s) = (Inr v, s)"
  by (simp add: returned_def)

lemma chain_simps [simp]: "chain (Inr a, s) k = k a s" "chain (Inl x, s) k = (Inl x, s)"
  by (simp_all add: chain_def)

subsection \<open>and_then and or_else\<close>

text \<open>
  C3. \<open>and_then r f args\<close>: when \<open>r\<close> is Ok it invokes \<open>f\<close> with exactly the supplied
  arguments \<open>args\<close> and returns the result \<open>f\<close> returns, in the state \<open>f\<close> leaves; when
  \<open>r\<close> is Err it returns the Err payload of \<open>r\<close> as a result of the type \<open>f\<close> returns,
  without invoking \<open>f\<close>: the value does not depend on \<open>f\<close> and the state is the one
  before the call.
\<close>

theorem and_then_contract:
  "and_then (Ok x :: ('ok, 'err) result) f args s = (Inr (fst (f args s)), snd (f args s))
   \<and> and_then (Err e :: ('ok, 'err) result) f args s = (Inr (Err e), s)"
  by (simp add: and_then_def returned_def)

text \<open>
  C4. Short circuit: for every Err payload \<open>e\<close>, every callable \<open>f\<close> and every pack of
  arguments, \<open>and_then (Err e) f args\<close> is \<open>Err e\<close> and leaves the state as it was, so
  a counter that \<open>f\<close> increments at each call stays where it was; in the scenario,
  \<open>Err ''boom''\<close> with the counting callable \<open>inc_if_positive\<close> gives \<open>Err ''boom''\<close>
  and the counter stays 0.
\<close>

theorem and_then_short_circuit:
  "fst (and_then (Err e :: ('ok, 'err) result) f args s) = Inr (Err e)
   \<and> snd (and_then (Err e :: ('ok, 'err) result) f args s) = s
   \<and> and_then (Err ''boom'' :: (int, string) result) inc_if_positive [] 0
       = (Inr (Err ''boom''), 0)"
  by (simp add: and_then_def)

text \<open>
  C1, as the specification states it: \<open>and_then\<close> on \<open>Ok x\<close> gives \<open>f\<close> applied to the
  payload \<open>x\<close>. The code calls \<open>f\<close> with the arguments of the call and never with the
  payload: on \<open>Ok 5\<close>, with no further argument, \<open>inc_if_positive\<close> is called with the
  empty pack and answers \<open>Err ''neg''\<close>, whereas applied to the payload 5 it answers
  \<open>Ok 6\<close>.
\<close>

theorem and_then_payload_counterexample:
  "and_then (Ok 5 :: (int, string) result) inc_if_positive [] 0
     \<noteq> returned (inc_if_positive [5] 0)"
  by (simp add: and_then_def inc_if_positive_def)

text \<open>
  C1, amended: for every value \<open>x\<close>, every callable \<open>f\<close> and every pack of arguments
  \<open>args\<close>, \<open>and_then\<close> on \<open>Ok x\<close> with \<open>f\<close> and \<open>args\<close> equals \<open>f\<close> applied to \<open>args\<close>;
  \<open>f\<close> does not receive the Ok payload, so the outcome is the same for every payload.
\<close>

theorem and_then_ok_applies_args:
  "and_then (Ok x :: ('ok, 'err) result) f args s = returned (f args s)
   \<and> and_then (Ok x :: ('ok, 'err) result) f args s = and_then (Ok y :: ('ok, 'err) result) f args s"
  by (simp add: and_then_def)

text \<open>
  C2, as the specification states it: \<open>or_else\<close> on \<open>Err e\<close> gives \<open>f\<close> applied to the
  Err payload \<open>e\<close>. The code calls \<open>f\<close> with the arguments of the call: on
  \<open>Err ''boom''\<close>, with no further argument, \<open>text_length\<close> is called with the empty
  pack and answers \<open>Ok 0\<close>, whereas applied to the payload it answers \<open>Ok 4\<close>.
\<close>

theorem or_else_payload_counterexample:
  "or_else (Err ''boom'' :: (int, string) result) text_length [] 0
     \<noteq> returned (text_length [''boom''] 0)"
  by (simp add: or_else_def text_length_def)

text \<open>
  C2, amended: for every Ok result \<open>Ok x\<close> and callable \<open>f\<close>, \<open>or_else\<close> returns \<open>Ok x\<close>
  and \<open>f\<close> is not invoked (the state is the one before the call); for every Err result
  \<open>Err e\<close>, \<open>or_else\<close> with \<open>f\<close> and \<open>args\<close> equals \<open>f\<close> applied to the supplied arguments
  \<open>args\<close>, not to the Err payload, so the outcome is the same for every Err payload.
\<close>

theorem or_else_contract:
  "or_else (Ok x :: ('ok, 'err) result) f args s = (Inr (Ok x), s)
   \<and> or_else (Err e :: ('ok, 'err) result) f args s = returned (f args s)
   \<and> or_else (Err e :: ('ok, 'err) result) f args s = or_else (Err d :: ('ok, 'err) result) f args s"
  by (simp add: or_else_def)

subsection \<open>map\<close>

text \<open>
  Where \<^verbatim>\<open>op\<close> returns an \<^verbatim>\<open>Ok\<close> again, \<open>map_res\<close> replaces an Ok payload by what
  \<^verbatim>\<open>op\<close> makes of it and returns an Err receiver as it is, without a call; mapping the
  identity changes nothing, and mapping \<open>f\<close> and then \<open>g\<close> is mapping \<open>compose g f\<close>.
\<close>

lemma map_res_Ok:
  "map_res (Ok x :: ('ok, 'err) result) op s = (Inr (Ok (fst (op x s))), snd (op x s))"
  by (simp add: map_res_def split: prod.split)

lemma map_res_Err:
  "map_res (Err e :: ('ok, 'err) result) op s = (Inr (Err e), s)"
  by (simp add: map_res_def)

lemma map_res_identity: "map_res r identity s = (Inr r, s)"
  using result_cases [of r] by (auto simp add: map_res_Ok map_res_Err identity_def)

lemma map_res_compose:
  "chain (map_res r f s) (\<lambda>r'. map_res r' g) = map_res r (compose g f) s"
  using result_cases [of r]
  by (auto simp add: map_res_Ok map_res_Err compose_def split: prod.split)

lemma map_res_nested_Ok:
  "map_res_nested (Ok x :: ('ok, 'err) result) op s = (Inr (Ok (fst (op x s))), snd (op x s))"
  by (simp add: map_res_nested_def split: prod.split)

lemma map_res_nested_Err:
  "map_res_nested (Err e :: ('ok, 'err) result) op s = (Inr (Ok (Err e)), s)"
  by (simp add: map_res_nested_def)

lemma map_res_nested_compose:
  "chain (map_res r f s) (\<lambda>r'. map_res_nested r' g) = map_res_nested r (compose g f) s"
  using result_cases [of r]
  by (auto simp add: map_res_Ok map_res_Err map_res_nested_Ok map_res_nested_Err
      compose_def split: prod.split)

text \<open>
  C5. The specification has \<open>map\<close> return the Err payload unchanged, for every function,
  the Ok type of the result being the function's return type. With a function that
  returns a result, here \<open>twice_ok\<close>, the code does not: \<^verbatim>\<open>return *this;\<close> stores the
  receiver \<open>Err ''boom''\<close> as the Ok payload of the value it returns, which therefore is
  Ok and not the Err \<open>''boom''\<close>; the function is not called.
\<close>

theorem map_nested_err_becomes_ok:
  "map_res_nested (Err ''boom'' :: (int, string) result) twice_ok 0
     = (Inr (Ok (Err ''boom'')), 0)
   \<and> is_ok (Ok (Err ''boom'' :: (int, string) result) :: ((int, string) result, string) result)
   \<and> (Ok (Err ''boom'' :: (int, string) result) :: ((int, string) result, string) result)
       \<noteq> Err ''boom''"
  by (simp add: map_res_nested_def)

text \<open>
  C6. The specification has both \<^verbatim>\<open>r.map(f).map(g)\<close> and \<^verbatim>\<open>r.map(x -> g(f(x)))\<close> equal
  to the Err receiver unchanged. With \<open>successor\<close> for \<open>f\<close> and \<open>twice_ok\<close>, which
  returns a result, for \<open>g\<close>, the two sides of the code agree and call neither function,
  but on \<open>Err ''boom''\<close> each of them is an Ok value holding the receiver, not the Err
  \<open>''boom''\<close>.
\<close>

theorem map_compose_nested_err_becomes_ok:
  "chain (map_res (Err ''boom'' :: (int, string) result) successor 0)
         (\<lambda>r'. map_res_nested r' twice_ok)
     = (Inr (Ok (Err ''boom'')), 0)
   \<and> map_res_nested (Err ''boom'' :: (int, string) result) (compose twice_ok successor) 0
     = (Inr (Ok (Err ''boom'')), 0)
   \<and> (Ok (Err ''boom'' :: (int, string) result) :: ((int, string) result, string) result)
       \<noteq> Err ''boom''"
  by (simp add: map_res_def map_res_nested_def)

subsection \<open>The eager pair and the fallback\<close>

text \<open>
  C9. For two results \<open>a\<close> and \<open>b\<close> already constructed: \<open>operator_and a b\<close> is \<open>b\<close>
  when \<open>a\<close> is Ok, and otherwise the Err payload of \<open>a\<close> as a result of the type of
  \<open>b\<close>; \<open>operator_or a b\<close> is \<open>b\<close> when \<open>a\<close> is Err, and otherwise the Ok value of
  \<open>a\<close>. In the scenarios, \<open>Ok 1 || Ok 2\<close> is \<open>Ok 1\<close> and \<open>Err ''x'' || Ok 2\<close> is
  \<open>Ok 2\<close>.
\<close>

theorem eager_pair:
  "operator_and (Ok x :: ('ok, 'err) result) (b :: ('ok2, 'err) result) = Inr b
   \<and> operator_and (Err e :: ('ok, 'err) result) (b :: ('ok2, 'err) result) = Inr (Err e)
   \<and> operator_or (Err e :: ('ok, 'err) result) c = Inr c
   \<and> operator_or (Ok x :: ('ok, 'err) result) c = Inr (Ok x)
   \<and> operator_or (Ok 1 :: (int, string) result) (Ok 2) = Inr (Ok 1)
   \<and> operator_or (Err ''x'' :: (int, string) result) (Ok 2) = Inr (Ok 2)"
  by (simp add: operator_and_def operator_or_def)

text \<open>
  C10. The specification has \<open>get_or\<close> return the Ok payload of an Ok result and the
  default on an Err result, for both overloads. The overload taking the default by
  constant reference does so, on every result and default; with the default 42 held in a
  variable, \<open>Err ''boom''\<close> gives 42 and \<open>Ok 7\<close> gives 7. The overload taking it by
  rvalue reference, the one the call \<^verbatim>\<open>r.get_or(42)\<close> selects, is ill-formed and returns
  nothing.
\<close>

theorem get_or_fallback:
  "get_or (Ok x :: ('ok, 'err) result) def = Inr x
   \<and> get_or (Err e :: ('ok, 'err) result) def = Inr def
   \<and> get_or (Err ''boom'' :: (int, string) result) 42 = Inr 42
   \<and> get_or (Ok 7 :: (int, string) result) 42 = Inr 7"
  by (simp add: get_or_def)

subsection \<open>No operation throws\<close>

lemma get_or_else_total: "\<exists>v s'. get_or_else r f args s = (Inr v, s')"
  using result_cases [of r] by (auto simp add: get_or_else_def returned_def)

lemma map_err_total: "\<exists>v s'. map_err r op s = (Inr v, s')"
  using result_cases [of r] by (auto simp add: map_err_def split: prod.split)

lemma map_res_total: "\<exists>v s'. map_res r op s = (Inr v, s')"
  using result_cases [of r] by (auto simp add: map_res_Ok map_res_Err)

lemma and_then_total: "\<exists>v s'. and_then r f args s = (Inr v, s')"
  using result_cases [of r] by (auto simp add: and_then_def returned_def)

lemma or_else_total: "\<exists>v s'. or_else r f args s = (Inr v, s')"
  using result_cases [of r] by (auto simp add: or_else_def returned_def)

lemma pure_total:
  "(\<exists>v. ok r = Inr v) \<and> (\<exists>v. err r = Inr v) \<and> (\<exists>v. operator_and r b = Inr v)
   \<and> (\<exists>v. operator_or r c = Inr v) \<and> (\<exists>v. get_or r def = Inr v)"
  using result_cases [of r]
  by (auto simp add: ok_def err_def operator_and_def operator_or_def get_or_def)

text \<open>
  C8. No operation of the container throws: \<open>is_ok\<close> and \<open>is_err\<close> are plain
  functions to \<open>bool\<close>, and on every result, with every callable, arguments and state,
  each of \<open>ok\<close>, \<open>err\<close>, \<open>map_res\<close>, \<open>map_err\<close>, \<open>and_then\<close>, \<open>or_else\<close>,
  \<open>operator_and\<close>, \<open>operator_or\<close>, \<open>get_or\<close> (the overload that can be
  instantiated, taking \<^verbatim>\<open>const Ok&\<close>) and \<open>get_or_else\<close>
  returns a value (\<open>Inr\<close>) and never the exception of a \<^verbatim>\<open>std::get\<close> on the wrong
  alternative: each \<^verbatim>\<open>std::get\<close> is reached under the matching test only.
\<close>

theorem api_total:
  "(\<exists>v. ok r = Inr v) \<and> (\<exists>v. err r = Inr v)
   \<and> (\<exists>v s'. map_res r op s = (Inr v, s'))
   \<and> (\<exists>v s'. map_err r op' s = (Inr v, s'))
   \<and> (\<exists>v s'. and_then r f args s = (Inr v, s'))
   \<and> (\<exists>v s'. or_else r f' args s = (Inr v, s'))
   \<and> (\<exists>v. operator_and r b = Inr v) \<and> (\<exists>v. operator_or r c = Inr v)
   \<and> (\<exists>v. get_or r def = Inr v)
   \<and> (\<exists>v s'. get_or_else r f'' args s = (Inr v, s'))"
  using pure_total [of r b c "def"] map_res_total [of r op s] map_err_total [of r op' s]
    and_then_total [of r f args s] or_else_total [of r f' args s]
    get_or_else_total [of r f'' args s]
  by simp

end
